theory Spec2Isabelle
  imports Main "HOL-Library.Sublist" "HOL-Library.Multiset"
begin

section \<open>Python strings\<close>

text \<open>
  A Python \<open>str\<close> is a sequence of Unicode code points and is modelled as the list of
  these code points. String literals of the program are written with \<open>lit\<close>, which
  reads an ASCII literal as its code points.
\<close>

type_synonym pystr = "nat list"

definition lit :: "string \<Rightarrow> pystr" where
  "lit s = map of_char s"

text \<open>\<open>s.find(c)\<close> for a one-character needle: the first index of \<open>c\<close>, or \<open>-1\<close>.\<close>

fun str_find :: "pystr \<Rightarrow> nat \<Rightarrow> int" where
  "str_find [] c = - 1"
| "str_find (x # xs) c =
     (if x = c then 0
      else (let i = str_find xs c in if i = - 1 then - 1 else i + 1))"

text \<open>\<open>s[i:]\<close> for an index \<open>i \<ge> 0\<close>, the only slice the program takes.\<close>

definition slice_from :: "pystr \<Rightarrow> int \<Rightarrow> pystr" where
  "slice_from s i = drop (nat i) s"

text \<open>\<open>str(n)\<close> for a Python integer: decimal digits, with a minus sign if negative.\<close>

function str_nat :: "nat \<Rightarrow> pystr" where
  "str_nat n = (if n < 10 then [48 + n] else str_nat (n div 10) @ [48 + n mod 10])"
  by pat_completeness auto
termination
  by (relation "measure (\<lambda>n. n)") auto

declare str_nat.simps [simp del]

definition str_int :: "int \<Rightarrow> pystr" where
  "str_int i = (if i < 0 then 45 # str_nat (nat (- i)) else str_nat (nat i))"

section \<open>The worker thread: \<open>Worker.run\<close>\<close>

text \<open>
  \<open>Worker.run\<close> starts the process, accumulates its merged output, waits for the exit
  status and then emits exactly one of the signals \<open>finished\<close> and \<open>error\<close>. What the
  operating system does with the command is the input of the model:
  \<^item> \<open>FileNotFoundError\<close>: \<open>subprocess.Popen\<close> raised it, the executable was not found;
  \<^item> \<open>OtherException e\<close>: any other exception was raised inside the \<open>try\<close> block while
    the process was started or read, \<open>e\<close> being its text;
  \<^item> \<open>Exited out rc\<close>: the process ran to its end, \<open>out\<close> is the accumulated
    \<open>full_output\<close> and \<open>rc\<close> the value of \<open>process.wait()\<close>.

  \<open>json.loads\<close> is a parameter: it returns a value, raises \<open>JSONDecodeError\<close>, or
  raises something else (a \<open>RecursionError\<close> on deeply nested input), which the last
  handler of \<open>run\<close> catches.

  The \<open>progress\<close> signals (one per line read) do not influence the terminal signal and
  are not part of the model.
\<close>

datatype process = FileNotFoundError | OtherException pystr | Exited pystr int

datatype 'v loads_result = Parsed 'v | JSONDecodeError | LoadsException pystr

text \<open>
  \<open>finished_emit None\<close> is \<open>self.finished.emit(None)\<close>, \<open>finished_emit (Some v)\<close> is
  \<open>self.finished.emit(json_output)\<close>, \<open>error_emit m\<close> is \<open>self.error.emit(m)\<close>.
\<close>

datatype 'v signal = finished_emit "'v option" | error_emit pystr

datatype exn = IndexError | AttributeError

definition is_json_dump :: "pystr list \<Rightarrow> bool" where
  "is_json_dump command \<longleftrightarrow> lit ''-j'' \<in> set command \<or> lit ''--dump-json'' \<in> set command"

text \<open>
  The result is \<open>Inr\<close> the signal emitted, or \<open>Inl\<close> an exception that leaves \<open>run\<close>:
  \<open>self.command[0]\<close> inside the \<open>FileNotFoundError\<close> handler raises \<open>IndexError\<close> on an
  empty command, and no handler of the same \<open>try\<close> catches that.
\<close>

fun run :: "(pystr \<Rightarrow> 'v loads_result) \<Rightarrow> pystr list \<Rightarrow> process \<Rightarrow> exn + 'v signal" where
  "run json_loads command (Exited full_output return_code) =
     (if is_json_dump command then
        (let json_start_index = str_find full_output 123 in
         if json_start_index \<noteq> - 1 then
           (case json_loads (slice_from full_output json_start_index) of
              Parsed json_output \<Rightarrow> Inr (finished_emit (Some json_output))
            | JSONDecodeError \<Rightarrow>
                Inr (error_emit (lit ''Failed to parse video information from yt-dlp's output.''))
            | LoadsException e \<Rightarrow>
                Inr (error_emit (lit ''An unexpected error occurred: '' @ e)))
         else Inr (error_emit (lit ''Could not find video information in the output.'')))
      else if return_code = 0 then Inr (finished_emit None)
      else Inr (error_emit (lit ''Process finished with error code '' @ str_int return_code)))"
| "run json_loads command FileNotFoundError =
     (case command of
        [] \<Rightarrow> Inl IndexError
      | c # _ \<Rightarrow>
          Inr (error_emit (lit ''Error: Command '' @ [39] @ c @ [39]
                           @ lit '' not found. Is it in your PATH?'')))"
| "run json_loads command (OtherException e) =
     Inr (error_emit (lit ''An unexpected error occurred: '' @ e))"

section \<open>More string operations used by the window\<close>

text \<open>
  \<open>str.isspace\<close> for one code point: the whitespace characters that \<open>str.strip()\<close>
  removes when called without argument.
\<close>

definition isspace :: "nat \<Rightarrow> bool" where
  "isspace c \<longleftrightarrow>
     (9 \<le> c \<and> c \<le> 13) \<or> (28 \<le> c \<and> c \<le> 32) \<or> c = 133 \<or> c = 160 \<or> c = 5760
     \<or> (8192 \<le> c \<and> c \<le> 8202) \<or> c = 8232 \<or> c = 8233 \<or> c = 8239 \<or> c = 8287
     \<or> c = 12288"

definition strip :: "pystr \<Rightarrow> pystr" where
  "strip s = rev (dropWhile isspace (rev (dropWhile isspace s)))"

text \<open>
  \<open>re.sub(r'[\\/*?:"<>|]', "", title)\<close>: the character class holds the nine characters
  \<open>\ / * ? : " < > |\<close>; every occurrence of one of them is deleted.
\<close>

definition forbidden :: "nat list" where
  "forbidden = [92, 47, 42, 63, 58, 34, 60, 62, 124]"

definition re_sub_forbidden :: "pystr \<Rightarrow> pystr" where
  "re_sub_forbidden title = filter (\<lambda>c. c \<notin> set forbidden) title"

text \<open>
  \<open>os.path.join(a, b)\<close> of \<open>posixpath\<close> for two components (the program runs on
  Linux): an absolute \<open>b\<close> replaces \<open>a\<close>; no separator is added after an empty \<open>a\<close> or
  after an \<open>a\<close> that ends with one.
\<close>

definition startswith_sep :: "pystr \<Rightarrow> bool" where
  "startswith_sep b \<longleftrightarrow> (case b of [] \<Rightarrow> False | c # _ \<Rightarrow> c = 47)"

definition endswith_sep :: "pystr \<Rightarrow> bool" where
  "endswith_sep a \<longleftrightarrow> (case rev a of [] \<Rightarrow> False | c # _ \<Rightarrow> c = 47)"

definition path_join :: "pystr \<Rightarrow> pystr \<Rightarrow> pystr" where
  "path_join a b =
     (if startswith_sep b then b
      else if a = [] \<or> endswith_sep a then a @ b
      else a @ [47] @ b)"

text \<open>
  A \<open>QTime\<close> is its number of milliseconds since midnight; \<open>>=\<close> on two of them compares
  these numbers. \<open>toString("HH:mm:ss")\<close> prints hours, minutes and seconds with two
  digits each.
\<close>

type_synonym QTime = nat

definition two_digits :: "nat \<Rightarrow> pystr" where
  "two_digits n = [48 + n div 10, 48 + n mod 10]"

definition toString :: "QTime \<Rightarrow> pystr" where
  "toString t = two_digits (t div 3600000) @ [58] @ two_digits (t div 60000 mod 60)
                @ [58] @ two_digits (t div 1000 mod 60)"

section \<open>The metadata that yt-dlp returns\<close>

text \<open>
  The parsed JSON object is read only through the keys below. A key that the program
  reads with \<open>.get\<close> and a default, or compares with \<open>'none'\<close> or tests for truth, is
  optional: \<open>None\<close> is the result of \<open>.get\<close> on a missing key. \<open>format_id\<close> and
  \<open>webpage_url\<close> are used as strings without a test, and yt-dlp always writes them, so
  they are strings. The keys \<open>ext\<close>, \<open>fps\<close> and \<open>abr\<close> only appear in the labels shown
  for the entries of the two combo boxes (they are floating-point numbers in part);
  labels are not modelled, the data attached to each entry is.
\<close>

record format_entry =
  format_id :: pystr
  vcodec :: "pystr option"
  acodec :: "pystr option"
  height :: "int option"

record video_info =
  title :: "pystr option"
  duration :: "int option"
  webpage_url :: pystr
  formats :: "format_entry list option"

text \<open>
  What \<open>json.loads\<close> returns for text that starts with \<open>{\<close> is a dictionary: the empty
  one, which is false in a Python condition, or one with the keys above. The object that
  the \<open>finished\<close> signal carries is such a dictionary or \<open>None\<close>.
\<close>

datatype json_dict = EmptyDict | Info video_info

section \<open>The window: \<open>YtdlpGui\<close>\<close>

text \<open>
  A combo box holds the data of its entries in order, the index of the current entry
  (\<open>-1\<close> when there is none) and whether it is enabled. The data of a video entry is the
  dictionary \<open>{'id': format_id, 'merged': is_merged}\<close>, the data of an audio entry is the
  \<open>format_id\<close>.
\<close>

record video_data =
  item_id :: pystr
  merged :: bool

record 'd combo =
  items :: "'d list"
  currentIndex :: int
  isEnabled :: bool

definition itemData :: "'d combo \<Rightarrow> int \<Rightarrow> 'd option" where
  "itemData c index =
     (if 0 \<le> index \<and> index < int (length (items c)) then Some (items c ! nat index) else None)"

definition currentData :: "'d combo \<Rightarrow> 'd option" where
  "currentData c = itemData c (currentIndex c)"

definition clear :: "'d combo \<Rightarrow> 'd combo" where
  "clear c = c\<lparr>items := [], currentIndex := - 1\<rparr>"

text \<open>\<open>addItem\<close> appends; the first entry of an empty box becomes the current one.\<close>

definition addItem :: "'d \<Rightarrow> 'd combo \<Rightarrow> 'd combo" where
  "addItem d c =
     c\<lparr>items := items c @ [d],
       currentIndex := (if items c = [] then 0 else currentIndex c)\<rparr>"

text \<open>
  The state of the window: the attribute \<open>video_info\<close>, the two combo boxes, the
  enabled flags that \<open>update_ui_state\<close> writes, the log and the worker last created
  (its command). The title and duration labels are only written, never read, and are
  left out.
\<close>

record gui =
  video_info :: "video_info option"
  video_quality_combo :: "video_data combo"
  audio_quality_combo :: "pystr combo"
  fetch_button :: bool
  url_input_enabled :: bool
  download_button :: bool
  log_output :: "pystr list"
  worker :: "pystr list option"

text \<open>
  What the user has entered in the form when a button is pressed: the texts of
  \<open>url_input\<close>, \<open>output_path_input\<close> and \<open>filename_input\<close> and the times of the two
  time edits. The handlers read them; \<open>on_fetch_finished\<close> also writes the two labels
  and resets the two time edits through the toolkit (lines 144 to 151), which is outside
  the model.
\<close>

record form =
  url_text :: pystr
  start_time :: QTime
  end_time :: QTime
  output_path :: pystr
  filename :: pystr

text \<open>
  What a handler does besides changing the window: the message boxes it shows (title and
  text), the worker it starts, an exception that leaves it.
\<close>

datatype effect =
    warning pystr pystr
  | critical pystr pystr
  | information pystr pystr
  | worker_start "pystr list"
  | uncaught exn

definition update_ui_state :: "bool \<Rightarrow> bool \<Rightarrow> bool \<Rightarrow> bool \<Rightarrow> gui \<Rightarrow> gui" where
  "update_ui_state initial fetching info_loaded downloading s =
     (let s1 = (if initial
                then s\<lparr>download_button := False,
                       video_quality_combo := (video_quality_combo s)\<lparr>isEnabled := False\<rparr>,
                       audio_quality_combo := (audio_quality_combo s)\<lparr>isEnabled := False\<rparr>\<rparr>
                else s);
          can_download = (info_loaded \<and> \<not> downloading \<and> \<not> fetching)
      in s1\<lparr>fetch_button := \<not> (fetching \<or> downloading),
            url_input_enabled := \<not> (fetching \<or> downloading),
            download_button := can_download,
            video_quality_combo := (video_quality_combo s1)\<lparr>isEnabled := can_download\<rparr>,
            audio_quality_combo := (audio_quality_combo s1)\<lparr>isEnabled := can_download\<rparr>\<rparr>)"

text \<open>
  \<open>_on_video_quality_changed(index)\<close>. The data of an entry is a dictionary with two
  keys, which is true in a condition, so \<open>if video_data:\<close> fails only when there is no
  entry at \<open>index\<close>.
\<close>

definition on_video_quality_changed :: "gui \<Rightarrow> int \<Rightarrow> gui" where
  "on_video_quality_changed s index =
     (if index < 0 then s
      else (case itemData (video_quality_combo s) index of
              None \<Rightarrow> s
            | Some video_data \<Rightarrow>
                (let is_merged = merged video_data
                 in s\<lparr>audio_quality_combo :=
                        (audio_quality_combo s)\<lparr>isEnabled := \<not> is_merged\<rparr>\<rparr>)))"

definition on_fetch_error :: "gui \<Rightarrow> pystr \<Rightarrow> gui \<times> effect list" where
  "on_fetch_error s error_message =
     (update_ui_state False False False False
        (s\<lparr>log_output := log_output s @ [10 # lit ''ERROR: '' @ error_message]\<rparr>),
      [critical (lit ''Error'')
         (lit ''Failed to fetch video info.'' @ [10, 10] @ error_message)])"

text \<open>
  The sort key \<open>x.get('height', 0) or 0\<close>, and \<open>sorted(..., reverse=True)\<close>: a stable sort
  by descending key.
\<close>

definition height_key :: "format_entry \<Rightarrow> int" where
  "height_key x = (case height x of None \<Rightarrow> 0 | Some h \<Rightarrow> if h \<noteq> 0 then h else 0)"

definition sorted_formats :: "format_entry list \<Rightarrow> format_entry list" where
  "sorted_formats fs = sort_key (\<lambda>x. - height_key x) fs"

text \<open>
  The two tests of the loop body: \<open>f.get('vcodec') != 'none' and height\<close> and
  \<open>f.get('acodec') != 'none' and f.get('vcodec') == 'none'\<close>. An integer is true in a
  condition when it is not zero, \<open>None\<close> is false.
\<close>

definition is_video_stream :: "format_entry \<Rightarrow> bool" where
  "is_video_stream f \<longleftrightarrow>
     vcodec f \<noteq> Some (lit ''none'') \<and> (case height f of None \<Rightarrow> False | Some h \<Rightarrow> h \<noteq> 0)"

definition is_audio_only_stream :: "format_entry \<Rightarrow> bool" where
  "is_audio_only_stream f \<longleftrightarrow>
     acodec f \<noteq> Some (lit ''none'') \<and> vcodec f = Some (lit ''none'')"

text \<open>
  Adding to the video box emits \<open>currentIndexChanged\<close> when the current index changes,
  that is for the first entry; the signal is connected to \<open>_on_video_quality_changed\<close>.
  (Clearing the box emits it with \<open>-1\<close>, where the handler returns at once.)
\<close>

definition video_addItem :: "video_data \<Rightarrow> gui \<Rightarrow> gui" where
  "video_addItem d s =
     (let s1 = s\<lparr>video_quality_combo := addItem d (video_quality_combo s)\<rparr>
      in if items (video_quality_combo s) = [] then on_video_quality_changed s1 0 else s1)"

definition add_format :: "format_entry \<Rightarrow> gui \<Rightarrow> gui" where
  "add_format f s =
     (let s1 = (if is_video_stream f
                then (let is_merged = (acodec f \<noteq> Some (lit ''none''))
                      in video_addItem \<lparr>item_id = format_id f, merged = is_merged\<rparr> s)
                else s)
      in if is_audio_only_stream f
         then s1\<lparr>audio_quality_combo := addItem (format_id f) (audio_quality_combo s1)\<rparr>
         else s1)"

text \<open>The loop \<open>for f in formats\<close>.\<close>

fun add_formats :: "format_entry list \<Rightarrow> gui \<Rightarrow> gui" where
  "add_formats [] s = s"
| "add_formats (f # fs) s = add_formats fs (add_format f s)"

text \<open>
  \<open>on_fetch_finished(info)\<close>. \<open>not info\<close> holds for \<open>None\<close> and for the empty
  dictionary; then the handler calls \<open>on_fetch_error\<close> and returns. Otherwise it stores
  the metadata, empties both boxes, fills them from the sorted formats, enables the
  controls and calls \<open>_on_video_quality_changed\<close> with the current video index.
\<close>

definition on_fetch_finished :: "gui \<Rightarrow> json_dict option \<Rightarrow> gui \<times> effect list" where
  "on_fetch_finished s info =
     (case info of
        Some (Info v) \<Rightarrow>
          (let s1 = s\<lparr>log_output :=
                        log_output s @ [10 # lit ''Successfully parsed video information!''],
                      video_info := Some v\<rparr>;
               s2 = s1\<lparr>video_quality_combo := clear (video_quality_combo s1),
                       audio_quality_combo := clear (audio_quality_combo s1)\<rparr>;
               fs = sorted_formats (case formats v of None \<Rightarrow> [] | Some l \<Rightarrow> l);
               s3 = add_formats fs s2;
               s4 = update_ui_state False False True False s3
           in (on_video_quality_changed s4 (currentIndex (video_quality_combo s4)), []))
      | _ \<Rightarrow> on_fetch_error s (lit ''Received empty video information.''))"

definition fetch_video_info :: "gui \<Rightarrow> form \<Rightarrow> gui \<times> effect list" where
  "fetch_video_info s w =
     (let url = strip (url_text w)
      in if url = [] then (s, [warning (lit ''Input Error'') (lit ''Please enter a video URL.'')])
         else
           (let command = [lit ''yt-dlp'', lit ''--dump-json'', url];
                s1 = s\<lparr>log_output := [lit ''Fetching info for: '' @ url @ lit ''...'']\<rparr>;
                s2 = update_ui_state False True False False s1
            in (s2\<lparr>worker := Some command\<rparr>, [worker_start command])))"

text \<open>
  \<open>download_clip\<close>. The tests come in the order of the source: video selection, audio
  selection, times. \<open>not audio_format_id\<close> holds for \<open>None\<close> (no current entry) and for
  the empty string. \<open>self.video_info.get\<close> on \<open>None\<close> raises \<open>AttributeError\<close>. The
  line written to the log joins the arguments with spaces, those that contain a space
  in quotes.
\<close>

fun join_space :: "pystr list \<Rightarrow> pystr" where
  "join_space [] = []"
| "join_space [x] = x"
| "join_space (x # y # ys) = x @ [32] @ join_space (y # ys)"

definition command_line :: "pystr list \<Rightarrow> pystr" where
  "command_line command =
     join_space (map (\<lambda>c. if 32 \<in> set c then [39] @ c @ [39] else c) command)"

definition download_clip :: "gui \<Rightarrow> form \<Rightarrow> gui \<times> effect list" where
  "download_clip s w =
     (case currentData (video_quality_combo s) of
        None \<Rightarrow> (s, [warning (lit ''Selection Error'') (lit ''Please select a video quality.'')])
      | Some video_data \<Rightarrow>
          (let video_format_id = item_id video_data;
               is_video_merged = merged video_data
           in case (if is_video_merged then Inr video_format_id
                    else (case currentData (audio_quality_combo s) of
                            None \<Rightarrow> Inl ()
                          | Some audio_format_id \<Rightarrow>
                              if audio_format_id = [] then Inl ()
                              else Inr (video_format_id @ lit ''+'' @ audio_format_id))) of
                Inl _ \<Rightarrow>
                  (s, [warning (lit ''Selection Error'')
                         (lit ''This video format has no audio. Please select an audio format to merge.'')])
              | Inr formats_to_dl \<Rightarrow>
                  if start_time w \<ge> end_time w
                  then (s, [warning (lit ''Time Error'')
                              (lit ''Start time must be before end time.'')])
                  else
                    (case video_info s of
                       None \<Rightarrow> (s, [uncaught AttributeError])
                     | Some v \<Rightarrow>
                         (let fname = strip (filename w);
                              output_template =
                                (if fname = []
                                 then (let safe_title = re_sub_forbidden
                                             (case title v of None \<Rightarrow> lit ''video'' | Some t \<Rightarrow> t)
                                       in path_join (output_path w) (safe_title @ lit ''.%(ext)s''))
                                 else path_join (output_path w) (fname @ lit ''.%(ext)s''));
                              command =
                                [lit ''yt-dlp'', lit ''-f'', formats_to_dl,
                                 lit ''--download-sections'',
                                 lit ''*'' @ toString (start_time w) @ lit ''-'' @ toString (end_time w),
                                 lit ''--force-keyframes-at-cuts'',
                                 lit ''--merge-output-format'', lit ''mkv'',
                                 lit ''-o'', output_template, webpage_url v];
                              s1 = s\<lparr>log_output := log_output s @
                                      [10 # replicate 50 61,
                                       lit ''Starting download with command:'',
                                       command_line command,
                                       replicate 50 61 @ [10]]\<rparr>;
                              s2 = update_ui_state False False False True s1
                          in (s2\<lparr>worker := Some command\<rparr>, [worker_start command])))))"

definition on_download_finished :: "gui \<Rightarrow> gui \<times> effect list" where
  "on_download_finished s =
     (update_ui_state False False True False
        (s\<lparr>log_output := log_output s @ [10 # lit ''Download completed successfully!'']\<rparr>),
      [information (lit ''Success'') (lit ''Video clip has been downloaded!'')])"

definition on_download_error :: "gui \<Rightarrow> pystr \<Rightarrow> gui \<times> effect list" where
  "on_download_error s error_message =
     (update_ui_state False False True False
        (s\<lparr>log_output := log_output s @ [10 # lit ''DOWNLOAD ERROR: '' @ error_message]\<rparr>),
      [critical (lit ''Download Error'')
         (lit ''The download failed.'' @ [10, 10] @ lit ''Check the log for details.'')])"

text \<open>
  The window after \<open>__init__\<close>: no metadata, two empty combo boxes, then
  \<open>update_ui_state(initial=True)\<close>.
\<close>

definition gui_init :: gui where
  "gui_init =
     update_ui_state True False False False
       \<lparr>video_info = None,
        video_quality_combo = \<lparr>items = [], currentIndex = - 1, isEnabled = True\<rparr>,
        audio_quality_combo = \<lparr>items = [], currentIndex = - 1, isEnabled = True\<rparr>,
        fetch_button = True, url_input_enabled = True, download_button = True,
        log_output = [], worker = None\<rparr>"

section \<open>The classification of format entries in the specification\<close>

text \<open>
  The specification's words, for comparison with the tests of the loop: an entry is
  video-capable iff its video codec is present and not \<open>none\<close> and its height is present;
  it is audio-capable iff its audio codec is present and not \<open>none\<close>.
\<close>

definition spec_video_capable :: "format_entry \<Rightarrow> bool" where
  "spec_video_capable f \<longleftrightarrow>
     (case vcodec f of None \<Rightarrow> False | Some c \<Rightarrow> c \<noteq> lit ''none'') \<and> height f \<noteq> None"

definition spec_audio_capable :: "format_entry \<Rightarrow> bool" where
  "spec_audio_capable f \<longleftrightarrow> (case acodec f of None \<Rightarrow> False | Some c \<Rightarrow> c \<noteq> lit ''none'')"

section \<open>What the failure handlers must keep\<close>

text \<open>
  The stored metadata and the two format selections: the attribute \<open>video_info\<close>, and
  for each combo box its entries and the index of the current one.
\<close>

definition stored_selection ::
  "gui \<Rightarrow> video_info option \<times> (video_data list \<times> int) \<times> (pystr list \<times> int)" where
  "stored_selection s =
     (video_info s,
      (items (video_quality_combo s), currentIndex (video_quality_combo s)),
      (items (audio_quality_combo s), currentIndex (audio_quality_combo s)))"

section \<open>Example inputs\<close>

text \<open>
  The metadata of the end-to-end scenarios: a video titled \<open>Demo\<close> of 125 seconds with
  the merged 720p format \<open>22\<close>, the video-only 1080p format \<open>137\<close> and the audio-only
  format \<open>140\<close>; the window after fetching it; a filled form.
\<close>

definition f22 :: format_entry where
  "f22 = \<lparr>format_id = lit ''22'', vcodec = Some (lit ''avc1''),
           acodec = Some (lit ''mp4a''), height = Some 720\<rparr>"

definition f137 :: format_entry where
  "f137 = \<lparr>format_id = lit ''137'', vcodec = Some (lit ''avc1''),
            acodec = Some (lit ''none''), height = Some 1080\<rparr>"

definition f140 :: format_entry where
  "f140 = \<lparr>format_id = lit ''140'', vcodec = Some (lit ''none''),
            acodec = Some (lit ''mp4a''), height = None\<rparr>"

definition demo_info :: video_info where
  "demo_info = \<lparr>title = Some (lit ''Demo''), duration = Some 125,
                 webpage_url = lit ''https://example.com/v'',
                 formats = Some [f22, f137, f140]\<rparr>"

definition demo_gui :: gui where
  "demo_gui = fst (on_fetch_finished gui_init (Some (Info demo_info)))"

definition demo_form :: form where
  "demo_form = \<lparr>url_text = lit ''https://example.com/v'', start_time = 5000, end_time = 10000,
                 output_path = lit ''/home/u'', filename = []\<rparr>"

text \<open>Windows after fetching metadata with only an audio format, and only a video-only one.\<close>

definition audio_only_gui :: gui where
  "audio_only_gui =
     fst (on_fetch_finished gui_init
            (Some (Info \<lparr>title = Some (lit ''Podcast''), duration = None,
                          webpage_url = lit ''https://example.com/p'', formats = Some [f140]\<rparr>)))"

definition video_only_gui :: gui where
  "video_only_gui =
     fst (on_fetch_finished gui_init (Some (Info (demo_info\<lparr>formats := Some [f137]\<rparr>))))"

text \<open>The same video, reported by the tool with the page address \<open>-j\<close>.\<close>

definition dash_j_gui :: gui where
  "dash_j_gui =
     fst (on_fetch_finished gui_init (Some (Info (demo_info\<lparr>webpage_url := lit ''-j''\<rparr>))))"

text \<open>
  Format entries on which the tests of the loop and the classification of the
  specification differ: both codecs known but no height; no codec reported but a height;
  a height of zero.
\<close>

definition f_no_height :: format_entry where
  "f_no_height = \<lparr>format_id = lit ''hls'', vcodec = Some (lit ''avc1''),
                   acodec = Some (lit ''mp4a''), height = None\<rparr>"

definition f_no_vcodec :: format_entry where
  "f_no_vcodec = \<lparr>format_id = lit ''http'', vcodec = None, acodec = None, height = Some 720\<rparr>"

definition f_zero_height :: format_entry where
  "f_zero_height = \<lparr>format_id = lit ''thumb'', vcodec = Some (lit ''avc1''),
                     acodec = Some (lit ''none''), height = Some 0\<rparr>"

text \<open>A stand-in for \<open>json.loads\<close> in the examples: it accepts the text \<open>{}\<close> only.\<close>

definition toy_loads :: "pystr \<Rightarrow> nat loads_result" where
  "toy_loads s = (if s = lit ''{}'' then Parsed 0 else JSONDecodeError)"


section \<open>Properties of the string operations\<close>

lemma str_find_ge: "- 1 \<le> str_find s c"
  by (induction s) (auto simp: Let_def)

lemma str_find_absent: "str_find s c = - 1 \<longleftrightarrow> c \<notin> set s"
proof (induction s)
  case Nil
  show ?case by simp
next
  case (Cons x xs)
  have "- 1 \<le> str_find xs c" by (rule str_find_ge)
  with Cons show ?case by (auto simp: Let_def)
qed

lemma slice_from_str_find:
  "c \<in> set s \<Longrightarrow> slice_from s (str_find s c) = dropWhile (\<lambda>x. x \<noteq> c) s"
proof (induction s)
  case Nil
  then show ?case by simp
next
  case (Cons x xs)
  show ?case
  proof (cases "x = c")
    case True
    then show ?thesis by (simp add: slice_from_def)
  next
    case False
    with Cons.prems have mem: "c \<in> set xs" by simp
    then have ne: "str_find xs c \<noteq> - 1" by (simp add: str_find_absent)
    have ge: "- 1 \<le> str_find xs c" by (rule str_find_ge)
    from ne ge have "nat (str_find xs c + 1) = Suc (nat (str_find xs c))" by simp
    with False ne Cons.IH [OF mem] show ?thesis
      by (simp add: slice_from_def Let_def)
  qed
qed

lemma path_join_plain:
  assumes "a \<noteq> []" and "last a \<noteq> 47" and "take 1 b \<noteq> [47]"
  shows "path_join a b = a @ [47] @ b"
proof -
  from assms(3) have "\<not> startswith_sep b"
    by (cases b) (simp_all add: startswith_sep_def)
  moreover from assms(1,2) have "\<not> endswith_sep a"
    by (cases a rule: rev_cases) (simp_all add: endswith_sep_def)
  ultimately show ?thesis using assms(1) by (simp add: path_join_def)
qed

section \<open>The terminal signal of the worker\<close>

lemma run_json:
  assumes "is_json_dump command"
  shows "run json_loads command (Exited out rc) =
     (if 123 \<in> set out
      then (case json_loads (dropWhile (\<lambda>x. x \<noteq> 123) out) of
              Parsed v \<Rightarrow> Inr (finished_emit (Some v))
            | JSONDecodeError \<Rightarrow>
                Inr (error_emit (lit ''Failed to parse video information from yt-dlp's output.''))
            | LoadsException e \<Rightarrow> Inr (error_emit (lit ''An unexpected error occurred: '' @ e)))
      else Inr (error_emit (lit ''Could not find video information in the output.'')))"
  using assms by (simp add: Let_def str_find_absent slice_from_str_find)

lemma run_plain:
  assumes "\<not> is_json_dump command"
  shows "run json_loads command (Exited out rc) =
     (if rc = 0 then Inr (finished_emit None)
      else Inr (error_emit (lit ''Process finished with error code '' @ str_int rc)))"
  using assms by simp

text \<open>
  In what follows \<open>123\<close> is the code point of the character \<open>{\<close>, and
  \<open>dropWhile (\<lambda>x. x \<noteq> 123) out\<close> is the part of the output from its first \<open>{\<close> on.
  \<open>finished_emit (Some v)\<close> is the outcome \<open>SucceededWithData(v)\<close>, \<open>finished_emit None\<close>
  is \<open>SucceededEmpty\<close>, \<open>error_emit m\<close> is \<open>Failed(m)\<close>.
\<close>




text \<open>
  C5. When the executable named by the first element of the argument list cannot be
  located (\<open>subprocess.Popen\<close> raises \<open>FileNotFoundError\<close>), the worker emits the
  failure signal, and the message contains that first element.
\<close>

theorem run_missing_executable:
  "\<exists>m. run json_loads (c # args) FileNotFoundError = Inr (error_emit m) \<and> sublist c m"
proof -
  let ?pre = "lit ''Error: Command '' @ [39]"
  let ?post = "[39] @ lit '' not found. Is it in your PATH?''"
  have "run json_loads (c # args) FileNotFoundError = Inr (error_emit (?pre @ c @ ?post))"
    by simp
  moreover have "sublist c (?pre @ c @ ?post)"
    by (rule sublist_appendI)
  ultimately show ?thesis by blast
qed

section \<open>What the handlers leave unchanged\<close>

lemma on_video_quality_changed_frame:
  "video_info (on_video_quality_changed s i) = video_info s"
  "video_quality_combo (on_video_quality_changed s i) = video_quality_combo s"
  "items (audio_quality_combo (on_video_quality_changed s i)) = items (audio_quality_combo s)"
  "currentIndex (audio_quality_combo (on_video_quality_changed s i))
     = currentIndex (audio_quality_combo s)"
  by (simp_all add: on_video_quality_changed_def Let_def split: option.splits)

lemma update_ui_state_frame:
  "video_info (update_ui_state a b c d s) = video_info s"
  "items (video_quality_combo (update_ui_state a b c d s)) = items (video_quality_combo s)"
  "currentIndex (video_quality_combo (update_ui_state a b c d s))
     = currentIndex (video_quality_combo s)"
  "items (audio_quality_combo (update_ui_state a b c d s)) = items (audio_quality_combo s)"
  "currentIndex (audio_quality_combo (update_ui_state a b c d s))
     = currentIndex (audio_quality_combo s)"
  by (simp_all add: update_ui_state_def Let_def)

section \<open>The two selection lists\<close>

lemma add_format_video_items:
  "items (video_quality_combo (add_format f s)) =
     items (video_quality_combo s) @
       map (\<lambda>f. \<lparr>item_id = format_id f, merged = (acodec f \<noteq> Some (lit ''none''))\<rparr>)
         (filter is_video_stream [f])"
  by (simp add: add_format_def video_addItem_def addItem_def Let_def
      on_video_quality_changed_frame)

lemma add_format_audio_items:
  "items (audio_quality_combo (add_format f s)) =
     items (audio_quality_combo s) @ map format_id (filter is_audio_only_stream [f])"
  by (simp add: add_format_def video_addItem_def addItem_def Let_def
      on_video_quality_changed_frame)

lemma add_formats_video_items:
  "items (video_quality_combo (add_formats fs s)) =
     items (video_quality_combo s) @
       map (\<lambda>f. \<lparr>item_id = format_id f, merged = (acodec f \<noteq> Some (lit ''none''))\<rparr>)
         (filter is_video_stream fs)"
  by (induction fs arbitrary: s) (simp_all add: add_format_video_items)

lemma add_formats_audio_items:
  "items (audio_quality_combo (add_formats fs s)) =
     items (audio_quality_combo s) @ map format_id (filter is_audio_only_stream fs)"
  by (induction fs arbitrary: s) (simp_all add: add_format_audio_items)

lemma on_fetch_finished_items:
  "items (video_quality_combo (fst (on_fetch_finished s (Some (Info v))))) =
     map (\<lambda>f. \<lparr>item_id = format_id f, merged = (acodec f \<noteq> Some (lit ''none''))\<rparr>)
       (filter is_video_stream (sorted_formats (case formats v of None \<Rightarrow> [] | Some l \<Rightarrow> l)))"
  "items (audio_quality_combo (fst (on_fetch_finished s (Some (Info v))))) =
     map format_id
       (filter is_audio_only_stream
          (sorted_formats (case formats v of None \<Rightarrow> [] | Some l \<Rightarrow> l)))"
  by (simp_all add: on_fetch_finished_def Let_def on_video_quality_changed_frame
      update_ui_state_frame add_formats_video_items add_formats_audio_items clear_def)

lemma sorted_formats_desc:
  "sorted_wrt (\<lambda>a b. height_key b \<le> height_key a) (sorted_formats fs)"
proof -
  have "sorted (map (\<lambda>x. - height_key x) (sorted_formats fs))"
    by (simp add: sorted_formats_def)
  then show ?thesis
    by (simp add: sorted_map sorted_wrt_iff_nth_less)
qed

lemma filter_sorted_formats:
  "filter P (sorted_formats fs) = sorted_formats (filter P fs)"
  by (simp add: sorted_formats_def filter_sort)

lemma not_both: "\<not> (is_video_stream f \<and> is_audio_only_stream f)"
  by (auto simp: is_video_stream_def is_audio_only_stream_def)

text \<open>Unfolding the model on concrete windows and forms.\<close>

lemmas eval_defs =
  demo_gui_def demo_info_def demo_form_def f22_def f137_def f140_def
  audio_only_gui_def video_only_gui_def dash_j_gui_def
  f_no_height_def f_no_vcodec_def f_zero_height_def
  gui_init_def on_fetch_finished_def update_ui_state_def add_format_def video_addItem_def
  addItem_def clear_def on_video_quality_changed_def itemData_def currentData_def
  sorted_formats_def height_key_def is_video_stream_def is_audio_only_stream_def
  download_clip_def strip_def isspace_def re_sub_forbidden_def forbidden_def path_join_def
  startswith_sep_def endswith_sep_def toString_def two_digits_def command_line_def
  lit_def Let_def

text \<open>
  C2, as the program has it. After a fetch that returned metadata, the video list holds
  exactly the entries whose video codec is not \<open>none\<close> (a missing codec counts as not
  \<open>none\<close>) and whose height is present and not zero, in descending order of height (a
  stable sort, missing height as 0); the audio list holds exactly the entries whose
  audio codec is not \<open>none\<close> (a missing one counts) and whose video codec is \<open>none\<close>, in
  the same order.
\<close>

theorem fetch_selection_lists:
  "items (video_quality_combo (fst (on_fetch_finished s (Some (Info v))))) =
     map (\<lambda>f. \<lparr>item_id = format_id f, merged = (acodec f \<noteq> Some (lit ''none''))\<rparr>)
       (sort_key (\<lambda>x. - height_key x)
          (filter is_video_stream (case formats v of None \<Rightarrow> [] | Some l \<Rightarrow> l)))
   \<and> sorted_wrt (\<lambda>a b. height_key b \<le> height_key a)
       (sort_key (\<lambda>x. - height_key x)
          (filter is_video_stream (case formats v of None \<Rightarrow> [] | Some l \<Rightarrow> l)))
   \<and> mset (sort_key (\<lambda>x. - height_key x)
              (filter is_video_stream (case formats v of None \<Rightarrow> [] | Some l \<Rightarrow> l)))
       = mset (filter is_video_stream (case formats v of None \<Rightarrow> [] | Some l \<Rightarrow> l))
   \<and> items (audio_quality_combo (fst (on_fetch_finished s (Some (Info v))))) =
       map format_id
         (sort_key (\<lambda>x. - height_key x)
            (filter is_audio_only_stream (case formats v of None \<Rightarrow> [] | Some l \<Rightarrow> l)))"
  using sorted_formats_desc
    [of "filter is_video_stream (case formats v of None \<Rightarrow> [] | Some l \<Rightarrow> l)"]
  by (simp add: on_fetch_finished_items filter_sorted_formats)
     (simp add: sorted_formats_def)

text \<open>
  C2 as the specification words it fails on three entries. The first has both codecs
  and no height: it is audio-capable and not video-capable, and the audio list stays
  empty. The second has a height and no codec: it is not video-capable, and it is the
  one entry of the video list. The third has a video codec and the height 0: it is
  video-capable, and it is not in the video list.
\<close>

theorem selection_lists_spec_counterexample:
  "spec_audio_capable f_no_height \<and> \<not> spec_video_capable f_no_height
   \<and> \<not> spec_video_capable f_no_vcodec
   \<and> spec_video_capable f_zero_height
   \<and> items (audio_quality_combo (fst (on_fetch_finished gui_init
        (Some (Info (demo_info\<lparr>formats := Some [f_no_height, f_no_vcodec, f_zero_height]\<rparr>))))))
       = []
   \<and> items (video_quality_combo (fst (on_fetch_finished gui_init
        (Some (Info (demo_info\<lparr>formats := Some [f_no_height, f_no_vcodec, f_zero_height]\<rparr>))))))
       = [\<lparr>item_id = lit ''http'', merged = True\<rparr>]"
  by (simp add: eval_defs spec_audio_capable_def spec_video_capable_def)

text \<open>
  C10. After a fetch that returned metadata the two lists are built from disjoint sets
  of entries: every entry behind the video list has a video codec different from
  \<open>none\<close>, every entry behind the audio list has the video codec \<open>none\<close>, and one pass of
  the loop body leaves at least one of the two lists as it was.
\<close>

theorem selection_lists_disjoint:
  "items (video_quality_combo (fst (on_fetch_finished s (Some (Info v))))) =
     map (\<lambda>f. \<lparr>item_id = format_id f, merged = (acodec f \<noteq> Some (lit ''none''))\<rparr>)
       (filter is_video_stream (sorted_formats (case formats v of None \<Rightarrow> [] | Some l \<Rightarrow> l)))
   \<and> items (audio_quality_combo (fst (on_fetch_finished s (Some (Info v))))) =
       map format_id
         (filter is_audio_only_stream
            (sorted_formats (case formats v of None \<Rightarrow> [] | Some l \<Rightarrow> l)))
   \<and> set (filter is_video_stream (sorted_formats (case formats v of None \<Rightarrow> [] | Some l \<Rightarrow> l)))
       \<inter> set (filter is_audio_only_stream
                (sorted_formats (case formats v of None \<Rightarrow> [] | Some l \<Rightarrow> l)))
       = {}
   \<and> list_all (\<lambda>f. vcodec f \<noteq> Some (lit ''none''))
       (filter is_video_stream (sorted_formats (case formats v of None \<Rightarrow> [] | Some l \<Rightarrow> l)))
   \<and> list_all (\<lambda>f. vcodec f = Some (lit ''none''))
       (filter is_audio_only_stream
          (sorted_formats (case formats v of None \<Rightarrow> [] | Some l \<Rightarrow> l)))
   \<and> (items (video_quality_combo (add_format f t)) = items (video_quality_combo t)
        \<or> items (audio_quality_combo (add_format f t)) = items (audio_quality_combo t))"
proof -
  have d: "set (filter is_video_stream xs) \<inter> set (filter is_audio_only_stream xs) = {}" for xs
    using not_both by auto
  have a: "list_all (\<lambda>f. vcodec f \<noteq> Some (lit ''none'')) (filter is_video_stream xs)" for xs
    by (simp add: list_all_iff is_video_stream_def)
  have b: "list_all (\<lambda>f. vcodec f = Some (lit ''none'')) (filter is_audio_only_stream xs)" for xs
    by (simp add: list_all_iff is_audio_only_stream_def)
  have e: "items (video_quality_combo (add_format f t)) = items (video_quality_combo t)
        \<or> items (audio_quality_combo (add_format f t)) = items (audio_quality_combo t)"
    using not_both [of f] by (auto simp: add_format_video_items add_format_audio_items)
  show ?thesis
    by (simp only: on_fetch_finished_items d a b e simp_thms)
qed

section \<open>Changing the video selection\<close>



section \<open>The result handlers\<close>

text \<open>
  C8. The handler of a failed fetch, the handler of a fetch that delivered nothing or
  an empty object, and the handlers of a finished and of a failed download all leave the
  stored metadata and both format selections as they were.
\<close>

theorem handlers_keep_selection:
  "stored_selection (fst (on_fetch_error s error_message)) = stored_selection s
   \<and> stored_selection (fst (on_fetch_finished s None)) = stored_selection s
   \<and> stored_selection (fst (on_fetch_finished s (Some EmptyDict))) = stored_selection s
   \<and> stored_selection (fst (on_download_finished s)) = stored_selection s
   \<and> stored_selection (fst (on_download_error s error_message)) = stored_selection s"
  by (simp add: stored_selection_def on_fetch_error_def on_fetch_finished_def
      on_download_finished_def on_download_error_def update_ui_state_frame)

section \<open>Requesting a download\<close>

text \<open>
  When \<open>download_clip\<close> starts a worker, all three tests have passed and the command is
  the list built in line 219.
\<close>

lemma download_clip_started:
  assumes "worker_start cmd \<in> set (snd (download_clip s w))"
  shows "currentData (video_quality_combo s) \<noteq> None \<and> video_info s \<noteq> None
           \<and> start_time w < end_time w
           \<and> (merged (the (currentData (video_quality_combo s)))
                \<or> (currentData (audio_quality_combo s) \<noteq> None
                    \<and> currentData (audio_quality_combo s) \<noteq> Some []))
           \<and> cmd = [lit ''yt-dlp'', lit ''-f'',
                    (if merged (the (currentData (video_quality_combo s)))
                     then item_id (the (currentData (video_quality_combo s)))
                     else item_id (the (currentData (video_quality_combo s))) @ lit ''+''
                          @ the (currentData (audio_quality_combo s))),
                    lit ''--download-sections'',
                    lit ''*'' @ toString (start_time w) @ lit ''-'' @ toString (end_time w),
                    lit ''--force-keyframes-at-cuts'',
                    lit ''--merge-output-format'', lit ''mkv'', lit ''-o'',
                    path_join (output_path w)
                      ((if strip (filename w) = []
                        then re_sub_forbidden
                               (case title (the (video_info s)) of
                                  None \<Rightarrow> lit ''video'' | Some t \<Rightarrow> t)
                        else strip (filename w)) @ lit ''.%(ext)s''),
                    webpage_url (the (video_info s))]"
  using assms
  by (auto simp: download_clip_def Let_def split: option.splits if_splits sum.splits)

lemma download_clip_rejected_frame:
  assumes "\<forall>cmd. worker_start cmd \<notin> set (snd (download_clip s w))"
  shows "fst (download_clip s w) = s"
  using assms
  by (auto simp: download_clip_def Let_def split: option.splits if_splits sum.splits)




text \<open>
  C6, as the program has it. A download request whose start time is equal to or later
  than its end time is rejected before any worker is started, and the window is
  unchanged. The rejection is the time error when the format selection is complete (a
  video entry is selected and, if it is not merged, so is an audio entry with a
  non-empty id); otherwise it is a selection error, since the selection is tested first.
\<close>

theorem download_time_check:
  assumes "start_time w \<ge> end_time w"
  shows "fst (download_clip s w) = s
         \<and> (\<forall>cmd. worker_start cmd \<notin> set (snd (download_clip s w)))
         \<and> ((\<exists>vd. currentData (video_quality_combo s) = Some vd
                \<and> (merged vd \<or> (\<exists>a. currentData (audio_quality_combo s) = Some a \<and> a \<noteq> [])))
             \<longrightarrow> snd (download_clip s w) =
                  [warning (lit ''Time Error'') (lit ''Start time must be before end time.'')])
         \<and> (\<not> (\<exists>vd. currentData (video_quality_combo s) = Some vd
                \<and> (merged vd \<or> (\<exists>a. currentData (audio_quality_combo s) = Some a \<and> a \<noteq> [])))
             \<longrightarrow> (\<exists>m. snd (download_clip s w) = [warning (lit ''Selection Error'') m]))"
proof -
  have no: "\<forall>cmd. worker_start cmd \<notin> set (snd (download_clip s w))"
  proof (intro allI notI)
    fix cmd assume "worker_start cmd \<in> set (snd (download_clip s w))"
    from download_clip_started [OF this] assms show False by simp
  qed
  have fr: "fst (download_clip s w) = s"
    using no by (rule download_clip_rejected_frame)
  have t: "(\<exists>vd. currentData (video_quality_combo s) = Some vd
                \<and> (merged vd \<or> (\<exists>a. currentData (audio_quality_combo s) = Some a \<and> a \<noteq> [])))
             \<longrightarrow> snd (download_clip s w) =
                  [warning (lit ''Time Error'') (lit ''Start time must be before end time.'')]"
    using assms by (auto simp: download_clip_def Let_def)
  have e: "\<not> (\<exists>vd. currentData (video_quality_combo s) = Some vd
                \<and> (merged vd \<or> (\<exists>a. currentData (audio_quality_combo s) = Some a \<and> a \<noteq> [])))
             \<longrightarrow> (\<exists>m. snd (download_clip s w) = [warning (lit ''Selection Error'') m])"
    by (auto simp: download_clip_def Let_def split: option.splits)
  from no fr t e show ?thesis by blast
qed

text \<open>
  In the demonstration window (entry 137 with audio 140 selected) a request from
  00:00:10 to 00:00:10 is rejected with the time error and the window is unchanged.
\<close>

theorem download_time_check_witness:
  "end_time (demo_form\<lparr>start_time := 10000\<rparr>) \<le> start_time (demo_form\<lparr>start_time := 10000\<rparr>)
   \<and> currentData (video_quality_combo demo_gui) = Some \<lparr>item_id = lit ''137'', merged = False\<rparr>
   \<and> currentData (audio_quality_combo demo_gui) = Some (lit ''140'')
   \<and> download_clip demo_gui (demo_form\<lparr>start_time := 10000\<rparr>)
       = (demo_gui, [warning (lit ''Time Error'') (lit ''Start time must be before end time.'')])"
  using download_time_check [where w = "demo_form\<lparr>start_time := 10000\<rparr>" and s = demo_gui]
  by (simp add: eval_defs)

text \<open>
  C6 as the specification words it fails after a fetch that found only an audio format:
  the video list is empty, the download button is enabled, and a request from 00:00:00
  to 00:00:00 is rejected with the selection error, not with the time error.
\<close>

theorem download_time_error_counterexample:
  "download_button audio_only_gui
   \<and> end_time (demo_form\<lparr>start_time := 0, end_time := 0\<rparr>)
       \<le> start_time (demo_form\<lparr>start_time := 0, end_time := 0\<rparr>)
   \<and> download_clip audio_only_gui (demo_form\<lparr>start_time := 0, end_time := 0\<rparr>)
       = (audio_only_gui,
          [warning (lit ''Selection Error'') (lit ''Please select a video quality.'')])
   \<and> snd (download_clip audio_only_gui (demo_form\<lparr>start_time := 0, end_time := 0\<rparr>))
       \<noteq> [warning (lit ''Time Error'') (lit ''Start time must be before end time.'')]"
  by (simp add: eval_defs)

text \<open>
  C7, as the program has it. Whenever a download request starts the external tool, the
  argument after \<open>-o\<close> is \<open>os.path.join\<close> of the output directory and the base name
  followed by \<open>.%(ext)s\<close>. The base name is the text of the file name field after
  trimming if that is not empty; otherwise it is the fetched title (the word \<open>video\<close>
  if the metadata has no title) without the characters \<open>\ / * ? : " < > |\<close>. The
  joined path is the output directory, a \<open>/\<close>, the base name and \<open>.%(ext)s\<close> whenever
  the output directory is not empty and does not end with \<open>/\<close> and the base name does
  not begin with \<open>/\<close>.
\<close>

theorem download_output_template:
  assumes "worker_start cmd \<in> set (snd (download_clip s w))"
  shows "\<exists>v basename. video_info s = Some v
           \<and> basename = (if strip (filename w) \<noteq> [] then strip (filename w)
                          else filter (\<lambda>c. c \<notin> set forbidden)
                                 (case title v of None \<Rightarrow> lit ''video'' | Some t \<Rightarrow> t))
           \<and> length cmd = 11 \<and> cmd ! 8 = lit ''-o''
           \<and> cmd ! 9 = path_join (output_path w) (basename @ lit ''.%(ext)s'')
           \<and> (output_path w \<noteq> [] \<and> last (output_path w) \<noteq> 47 \<and> take 1 basename \<noteq> lit ''/''
                \<longrightarrow> cmd ! 9 = output_path w @ lit ''/'' @ basename @ lit ''.%(ext)s'')"
proof -
  let ?v = "the (video_info s)"
  let ?b = "if strip (filename w) \<noteq> [] then strip (filename w)
            else filter (\<lambda>c. c \<notin> set forbidden)
                   (case title ?v of None \<Rightarrow> lit ''video'' | Some t \<Rightarrow> t)"
  from download_clip_started [OF assms]
  have v: "video_info s = Some ?v"
    and c: "cmd ! 9 = path_join (output_path w) (?b @ lit ''.%(ext)s'')"
    and l: "length cmd = 11" and o: "cmd ! 8 = lit ''-o''"
    by (auto simp: re_sub_forbidden_def)
  have p: "output_path w \<noteq> [] \<and> last (output_path w) \<noteq> 47 \<and> take 1 ?b \<noteq> lit ''/''
             \<longrightarrow> cmd ! 9 = output_path w @ lit ''/'' @ ?b @ lit ''.%(ext)s''"
  proof
    assume h: "output_path w \<noteq> [] \<and> last (output_path w) \<noteq> 47 \<and> take 1 ?b \<noteq> lit ''/''"
    have s: "lit ''/'' = [47]" by (simp add: lit_def)
    have d: "lit ''.%(ext)s'' = 46 # lit ''%(ext)s''" by (simp add: lit_def)
    from h have "take 1 (?b @ lit ''.%(ext)s'') \<noteq> [47]"
      by (cases ?b) (simp_all add: s d)
    with h have "path_join (output_path w) (?b @ lit ''.%(ext)s'')
                   = output_path w @ [47] @ ?b @ lit ''.%(ext)s''"
      by (intro path_join_plain) simp_all
    with c show "cmd ! 9 = output_path w @ lit ''/'' @ ?b @ lit ''.%(ext)s''"
      by (simp add: s)
  qed
  from v c l o p show ?thesis by blast
qed

text \<open>
  With an empty file name field the template is \<open>/home/u/Demo.%(ext)s\<close>; with the
  field holding \<open>my clip\<close> between blanks it is \<open>/home/u/my clip.%(ext)s\<close>; a title
  \<open>a/b: c?\<close> would give the base name \<open>ab c\<close>.
\<close>

theorem download_output_template_witness:
  "worker_start
     [lit ''yt-dlp'', lit ''-f'', lit ''137+140'', lit ''--download-sections'',
      lit ''*00:00:05-00:00:10'', lit ''--force-keyframes-at-cuts'',
      lit ''--merge-output-format'', lit ''mkv'', lit ''-o'',
      lit ''/home/u/Demo.%(ext)s'', lit ''https://example.com/v'']
     \<in> set (snd (download_clip demo_gui demo_form))
   \<and> worker_start
     [lit ''yt-dlp'', lit ''-f'', lit ''137+140'', lit ''--download-sections'',
      lit ''*00:00:05-00:00:10'', lit ''--force-keyframes-at-cuts'',
      lit ''--merge-output-format'', lit ''mkv'', lit ''-o'',
      lit ''/home/u/my clip.%(ext)s'', lit ''https://example.com/v'']
     \<in> set (snd (download_clip demo_gui (demo_form\<lparr>filename := lit ''  my clip ''\<rparr>)))
   \<and> filter (\<lambda>c. c \<notin> set forbidden) (lit ''a/b: c?'') = lit ''ab c''"
  using
    download_output_template
      [where cmd = "[lit ''yt-dlp'', lit ''-f'', lit ''137+140'', lit ''--download-sections'',
         lit ''*00:00:05-00:00:10'', lit ''--force-keyframes-at-cuts'',
         lit ''--merge-output-format'', lit ''mkv'', lit ''-o'',
         lit ''/home/u/Demo.%(ext)s'', lit ''https://example.com/v'']"
       and s = demo_gui and w = demo_form]
    download_output_template
      [where cmd = "[lit ''yt-dlp'', lit ''-f'', lit ''137+140'', lit ''--download-sections'',
         lit ''*00:00:05-00:00:10'', lit ''--force-keyframes-at-cuts'',
         lit ''--merge-output-format'', lit ''mkv'', lit ''-o'',
         lit ''/home/u/my clip.%(ext)s'', lit ''https://example.com/v'']"
       and s = demo_gui and w = "demo_form\<lparr>filename := lit ''  my clip ''\<rparr>"]
  by (simp add: eval_defs)

text \<open>
  C7 as the specification words it fails when the file name field holds \<open>/tmp/x\<close>: the
  template is \<open>/tmp/x.%(ext)s\<close>, without the output directory \<open>/home/u\<close>.
\<close>

theorem output_template_counterexample:
  "snd (download_clip demo_gui (demo_form\<lparr>filename := lit ''/tmp/x''\<rparr>)) =
     [worker_start
        [lit ''yt-dlp'', lit ''-f'', lit ''137+140'', lit ''--download-sections'',
         lit ''*00:00:05-00:00:10'', lit ''--force-keyframes-at-cuts'',
         lit ''--merge-output-format'', lit ''mkv'', lit ''-o'',
         lit ''/tmp/x.%(ext)s'', lit ''https://example.com/v'']]
   \<and> lit ''/tmp/x.%(ext)s''
       \<noteq> output_path (demo_form\<lparr>filename := lit ''/tmp/x''\<rparr>) @ lit ''/''
           @ strip (filename (demo_form\<lparr>filename := lit ''/tmp/x''\<rparr>)) @ lit ''.%(ext)s''"
  by (simp add: eval_defs)

section \<open>A download command that is taken for a metadata query\<close>

text \<open>
  C9. Whether a JSON result is expected is decided by the argument list alone: if
  \<open>-j\<close> or \<open>--dump-json\<close> is one of its elements, at any position, the outcome follows
  the JSON rules and does not depend on the exit status; if neither is an element, it
  follows the exit status.
\<close>

theorem run_json_by_argument:
  "(lit ''-j'' \<in> set command \<or> lit ''--dump-json'' \<in> set command \<longrightarrow>
      run json_loads command (Exited out rc) =
        (if 123 \<in> set out
         then (case json_loads (dropWhile (\<lambda>x. x \<noteq> 123) out) of
                 Parsed v \<Rightarrow> Inr (finished_emit (Some v))
               | JSONDecodeError \<Rightarrow>
                   Inr (error_emit (lit ''Failed to parse video information from yt-dlp's output.''))
               | LoadsException e \<Rightarrow> Inr (error_emit (lit ''An unexpected error occurred: '' @ e)))
         else Inr (error_emit (lit ''Could not find video information in the output.''))))
   \<and> (lit ''-j'' \<notin> set command \<and> lit ''--dump-json'' \<notin> set command \<longrightarrow>
      run json_loads command (Exited out rc) =
        (if rc = 0 then Inr (finished_emit None)
         else Inr (error_emit (lit ''Process finished with error code '' @ str_int rc))))"
  using run_json [of command json_loads out rc] run_plain [of command json_loads out rc]
  by (simp add: is_json_dump_def del: run.simps)

text \<open>
  A download of the video whose page address is \<open>-j\<close>: the command ends with \<open>-j\<close>, and
  a run that exits with status 0 without printing a \<open>{\<close> ends in the failure "Could not
  find video information in the output."; the same command with the usual address
  ends in the empty success.
\<close>

theorem run_json_by_argument_witness:
  "snd (download_clip dash_j_gui demo_form) =
     [worker_start
        [lit ''yt-dlp'', lit ''-f'', lit ''137+140'', lit ''--download-sections'',
         lit ''*00:00:05-00:00:10'', lit ''--force-keyframes-at-cuts'',
         lit ''--merge-output-format'', lit ''mkv'', lit ''-o'',
         lit ''/home/u/Demo.%(ext)s'', lit ''-j'']]
   \<and> run toy_loads
        [lit ''yt-dlp'', lit ''-f'', lit ''137+140'', lit ''--download-sections'',
         lit ''*00:00:05-00:00:10'', lit ''--force-keyframes-at-cuts'',
         lit ''--merge-output-format'', lit ''mkv'', lit ''-o'',
         lit ''/home/u/Demo.%(ext)s'', lit ''-j'']
        (Exited (lit ''[download] 100%'') 0)
       = Inr (error_emit (lit ''Could not find video information in the output.''))
   \<and> run toy_loads
        [lit ''yt-dlp'', lit ''-f'', lit ''137+140'', lit ''--download-sections'',
         lit ''*00:00:05-00:00:10'', lit ''--force-keyframes-at-cuts'',
         lit ''--merge-output-format'', lit ''mkv'', lit ''-o'',
         lit ''/home/u/Demo.%(ext)s'', lit ''https://example.com/v'']
        (Exited (lit ''[download] 100%'') 0)
       = Inr (finished_emit None)"
proof -
  let ?pre = "[lit ''yt-dlp'', lit ''-f'', lit ''137+140'', lit ''--download-sections'',
         lit ''*00:00:05-00:00:10'', lit ''--force-keyframes-at-cuts'',
         lit ''--merge-output-format'', lit ''mkv'', lit ''-o'',
         lit ''/home/u/Demo.%(ext)s'']"
  have d: "snd (download_clip dash_j_gui demo_form) = [worker_start (?pre @ [lit ''-j''])]"
    by (simp add: eval_defs)
  have m: "lit ''-j'' \<in> set (?pre @ [lit ''-j''])" by simp
  have n: "lit ''-j'' \<notin> set (?pre @ [lit ''https://example.com/v''])
           \<and> lit ''--dump-json'' \<notin> set (?pre @ [lit ''https://example.com/v''])"
    by (simp add: lit_def)
  have o: "123 \<notin> set (lit ''[download] 100%'')" by (simp add: lit_def)
  from d m n o
    run_json_by_argument [where command = "?pre @ [lit ''-j'']" and json_loads = toy_loads
      and out = "lit ''[download] 100%''" and rc = 0]
    run_json_by_argument [where command = "?pre @ [lit ''https://example.com/v'']"
      and json_loads = toy_loads and out = "lit ''[download] 100%''" and rc = 0]
  show ?thesis by (simp del: run.simps)
qed

end
